theory Spec2Isabelle
  imports Complex_Main "HOL-Library.Monad_Syntax"
begin

section \<open>The SEO metric interpreter (lib/seo-interpreter)\<close>

text \<open>
  A shallow embedding of \<^verbatim>\<open>interpretSeoMetrics\<close> and \<^verbatim>\<open>calculateAggregatedScore\<close>.
  The TypeScript function takes \<^verbatim>\<open>data: any\<close>; the facts it reads are the ones the
  extractor (\<^verbatim>\<open>analyzeOnPage\<close>, \<^verbatim>\<open>analyzeTechnical\<close>, \<^verbatim>\<open>analyzeTrust\<close>) produces:
  nested objects whose leaves are integers, booleans and strings. Every object and every
  leaf may be absent (\<^verbatim>\<open>undefined\<close>), which is \<open>None\<close> here: the type \<open>PageFacts\<close>.
  Non-integer numbers and leaves of another type are outside it. A key that holds
  \<^verbatim>\<open>null\<close> where an object is expected is treated further down (\<open>AnyPageFacts\<close>).
\<close>

subsection \<open>Output types\<close>

datatype Status = Good | Warning | Critical | Unknown

datatype Priority = PriorityGood | PriorityWarning | PriorityCritical

text \<open>The optional field \<^verbatim>\<open>metric\<close> of \<^verbatim>\<open>MetricResult\<close> is never set by the interpreter
  and is left out.\<close>

record MetricResult =
  title :: string
  status :: Status
  plainExplanation :: string
  whyItMatters :: string
  action :: string

record SeoSection =
  name :: string
  metrics :: "MetricResult list"

record SeoBreakdownCategory =
  score :: int
  label :: string
  description :: string
  passed :: nat
  total :: nat
  priority :: Priority

record BreakdownSummary =
  weakestArea :: string
  strongestArea :: string
  recommendedFocus :: string

record SeoBreakdown =
  onPage :: SeoBreakdownCategory
  technical :: SeoBreakdownCategory
  authority :: SeoBreakdownCategory
  summary :: BreakdownSummary

record ReportSummary =
  actions :: "string list"

text \<open>The report's \<^verbatim>\<open>score\<close> is a JavaScript number that
  \<^verbatim>\<open>calculateAggregatedScore\<close> computes by an unguarded division; \<open>None\<close> stands
  for \<^verbatim>\<open>NaN\<close>.\<close>

record SeoReport =
  sections :: "SeoSection list"
  summary :: ReportSummary
  score :: "int option"
  seoBreakdown :: SeoBreakdown

subsection \<open>Input facts\<close>

text \<open>Field names that clash with an output field or a list function carry the
  suffix \<open>_f\<close>: \<open>length_f\<close>, \<open>exists_f\<close>, \<open>title_f\<close>, \<open>total_f\<close>, \<open>technical_f\<close>.\<close>

record TextFacts =
  text_f :: "string option"
  length_f :: "int option"
  exists_f :: "bool option"

record HeadingFacts =
  h1Count :: "int option"
  h2Count :: "int option"
  h3Count :: "int option"
  h1Exists :: "bool option"
  h1Unique :: "bool option"

record OgFacts =
  hasOg :: "bool option"

record AltStats =
  total_f :: "int option"
  missing :: "int option"

record ImageFacts =
  altStats :: "AltStats option"

record ContentFacts =
  wordCount :: "int option"

record OnPageFacts =
  title_f :: "TextFacts option"
  meta :: "TextFacts option"
  headings :: "HeadingFacts option"
  og :: "OgFacts option"
  images :: "ImageFacts option"
  content :: "ContentFacts option"

record TechnicalFacts =
  https :: "bool option"
  mobileFriendly :: "bool option"
  noindex :: "bool option"
  sitemap :: "bool option"

record TrustFacts =
  internalLinks :: "int option"
  hasSchema :: "bool option"

record PageFacts =
  onpage :: "OnPageFacts option"
  technical_f :: "TechnicalFacts option"
  trust :: "TrustFacts option"

subsection \<open>JavaScript helpers\<close>

text \<open>
  \<^verbatim>\<open>get(obj, path, defaultValue)\<close> walks the path and yields the default as soon as a
  key is undefined. The walk is the chain of \<open>\<bind>\<close> on the optional fields, and
  \<open>get\<close> supplies the default at its end.
\<close>

definition get :: "'a option \<Rightarrow> 'a \<Rightarrow> 'a" where
  "get v defaultValue = (case v of None \<Rightarrow> defaultValue | Some x \<Rightarrow> x)"

text \<open>\<^verbatim>\<open>x > n\<close> where \<^verbatim>\<open>x\<close> may be \<^verbatim>\<open>undefined\<close>: the comparison is then false.\<close>

definition gt_num :: "int option \<Rightarrow> int \<Rightarrow> bool" where
  "gt_num x n = (case x of None \<Rightarrow> False | Some v \<Rightarrow> v > n)"

text \<open>Template-string conversion of an integer (decimal digits, a leading minus sign).
  JavaScript switches to exponent notation from \<open>10\<^sup>2\<^sup>1\<close> on; no page count is that large.\<close>

fun show_nat :: "nat \<Rightarrow> string" where
  "show_nat n = (if n < 10 then [''0123456789'' ! n]
                 else show_nat (n div 10) @ [''0123456789'' ! (n mod 10)])"

definition show_int :: "int \<Rightarrow> string" where
  "show_int i = (if i < 0 then ''-'' @ show_nat (nat (- i)) else show_nat (nat i))"

definition show_num :: "int option \<Rightarrow> string" where
  "show_num x = (case x of None \<Rightarrow> ''undefined'' | Some v \<Rightarrow> show_int v)"

text \<open>\<^verbatim>\<open>Math.round\<close> rounds to the nearest integer, a half upwards. The quotients are
  taken exactly (as rationals): on the metric lists the interpreter builds (4 to 14
  entries) the double-precision quotient is never close enough to a half to round
  differently.\<close>

definition Math_round :: "rat \<Rightarrow> int" where
  "Math_round x = \<lfloor>x + 1 / 2\<rfloor>"

definition clamp :: "int \<Rightarrow> int \<Rightarrow> int \<Rightarrow> int" where
  "clamp n mn mx = max mn (min mx n)"

definition getPriority :: "int \<Rightarrow> Priority" where
  "getPriority s = (if s < 30 then PriorityCritical
                    else if s < 70 then PriorityWarning
                    else PriorityGood)"

subsection \<open>The rules, section by section\<close>

text \<open>Each \<^verbatim>\<open>push\<close> of the source is one list element, in the source's order. A rule
  written as an \<^verbatim>\<open>if\<close>/\<^verbatim>\<open>else\<close> chain of pushes is the function that yields the pushed
  result (\<open>titleMetric\<close>, \<open>metaMetric\<close>, \<open>h1Metric\<close>, \<open>wcMetric\<close>); a rule that is a single push
  is the function that yields its object literal. The five local arrays keep their names,
  and \<open>buildSections\<close> is the array \<^verbatim>\<open>sections\<close> after its five pushes.\<close>

definition titleMetric :: "PageFacts \<Rightarrow> MetricResult" where
  "titleMetric data =
    (let titleLen = get (onpage data \<bind> title_f \<bind> length_f) 0;
         titleExists = get (onpage data \<bind> title_f \<bind> exists_f) False
     in if \<not> titleExists then
          \<lparr>title = ''Page Title'',
           status = Critical,
           plainExplanation = ''Your page doesn't have a title defined in the code.'',
           whyItMatters = ''Google uses this title to show your page in search results. Without it, you look invisible or broken.'',
           action = ''Add a clear, short title between 30 and 60 characters.''\<rparr>
        else if titleLen > 60 then
          \<lparr>title = ''Title Length'',
           status = Critical,
           plainExplanation = ''Your title is too long ('' @ show_int titleLen @ '' characters).'',
           whyItMatters = ''Google will cut off the end of long titles, making your link look messy and unprofessional to searchers.'',
           action = ''Shorten the title to under 60 characters.''\<rparr>
        else if titleLen < 30 then
          \<lparr>title = ''Title Length'',
           status = Warning,
           plainExplanation = ''Your title is a bit too short.'',
           whyItMatters = ''Short titles don't give Google enough context to rank you for different search terms.'',
           action = ''Add a few more descriptive words or your brand name to the title.''\<rparr>
        else
          \<lparr>title = ''Title Length'',
           status = Good,
           plainExplanation = ''Your title length is perfect.'',
           whyItMatters = ''It will display fully on most screens, ensuring people see your full message.'',
           action = ''Keep it as is.''\<rparr>)"

definition metaMetric :: "PageFacts \<Rightarrow> MetricResult" where
  "metaMetric data =
    (let metaExists = get (onpage data \<bind> meta \<bind> exists_f) False;
         metaLen = get (onpage data \<bind> meta \<bind> length_f) 0
     in if \<not> metaExists then
          \<lparr>title = ''Search Snippet (Meta)'',
           status = Critical,
           plainExplanation = ''There is no description for this page in the search results.'',
           whyItMatters = ''Google has to guess what your page is about, which often leads to less clicks from potential visitors.'',
           action = ''Add a compelling description of 120-160 characters.''\<rparr>
        else if metaLen < 100 \<or> metaLen > 160 then
          \<lparr>title = ''Search Snippet (Meta)'',
           status = Warning,
           plainExplanation = ''The description of your page is either too short or too long.'',
           whyItMatters = ''If it's too long, it gets cut off. If it's too short, it's not convincing enough for users to click.'',
           action = ''Aim for a length between 120 and 160 characters.''\<rparr>
        else
          \<lparr>title = ''Search Snippet (Meta)'',
           status = Good,
           plainExplanation = ''Your search result description is well-balanced.'',
           whyItMatters = ''It helps you stand out and encourages more people to click on your link.'',
           action = ''No changes needed.''\<rparr>)"

definition ogMetric :: "PageFacts \<Rightarrow> MetricResult" where
  "ogMetric data =
    (let hasOg = get (onpage data \<bind> og \<bind> hasOg) False
     in \<lparr>title = ''Social Media Preview'',
         status = (if hasOg then Good else Warning),
         plainExplanation = (if hasOg then ''Social media preview signals are present.''
                             else ''Missing specific signals for social media sharing.''),
         whyItMatters = ''When people share your link on Facebook or Twitter, these signals ensure it looks beautiful with an image and title.'',
         action = (if hasOg then ''Check if the images look good.''
                   else ''Add 'Open Graph' tags to control how your site looks on social media.'')\<rparr>)"

definition searchVisibility :: "PageFacts \<Rightarrow> MetricResult list" where
  "searchVisibility data = [titleMetric data, metaMetric data, ogMetric data]"

definition h1Metric :: "PageFacts \<Rightarrow> MetricResult" where
  "h1Metric data =
    (let h1Count = get (onpage data \<bind> headings \<bind> h1Count) 0
     in if h1Count = 0 then
          \<lparr>title = ''Main Headline (H1)'',
           status = Critical,
           plainExplanation = ''Google can't quickly understand what this specific page is about because the main headline is missing.'',
           whyItMatters = ''The H1 is the primary signal to Google and visitors about the page's topic. Without it, your message is lost.'',
           action = ''Add one clear main headline (H1 tag) to the top of the page.''\<rparr>
        else if h1Count > 1 then
          \<lparr>title = ''Main Headlines (H1)'',
           status = Warning,
           plainExplanation = ''You have multiple main headlines on this page.'',
           whyItMatters = ''It's like reading a book with two different titles on the same cover; it confuses Google about your main focus.'',
           action = ''Keep only one main headline and turn the others into sub-headlines.''\<rparr>
        else
          \<lparr>title = ''Main Headline (H1)'',
           status = Good,
           plainExplanation = ''You have a clear, single main headline.'',
           whyItMatters = ''Google knows exactly what the topic of this page is.'',
           action = ''Good job, no action needed.''\<rparr>)"

definition wcMetric :: "PageFacts \<Rightarrow> MetricResult" where
  "wcMetric data =
    (let wc = get (onpage data \<bind> content \<bind> wordCount) 0
     in if wc < 300 then
          \<lparr>title = ''Content Depth'',
           status = Critical,
           plainExplanation = ''This page is very 'thin' with only '' @ show_int wc @ '' words.'',
           whyItMatters = ''Google prefers pages that provide thorough answers. Short pages rarely rank on the first page.'',
           action = ''Expand your content with more helpful details, examples, or data.''\<rparr>
        else if wc < 600 then
          \<lparr>title = ''Content Depth'',
           status = Warning,
           plainExplanation = ''The content is okay, but it might not be enough to beat competitors.'',
           whyItMatters = ''The top results in Google usually have between 1000 and 2000 words.'',
           action = ''Consider adding more value or answering common questions people have about this topic.''\<rparr>
        else
          \<lparr>title = ''Content Depth'',
           status = Good,
           plainExplanation = ''You have a solid amount of content on this page.'',
           whyItMatters = ''This shows Google you are covering the topic seriously.'',
           action = ''Ensure the content stays updated and relevant.''\<rparr>)"

text \<open>The image rule pushes one result or none: the list of what it pushes.\<close>

definition imageMetric :: "PageFacts \<Rightarrow> MetricResult list" where
  "imageMetric data =
    (let altStats = get (onpage data \<bind> images \<bind> altStats) \<lparr>total_f = Some 0, missing = Some 0\<rparr>
     in if gt_num (total_f altStats) 0 \<and> gt_num (missing altStats) 0 then
          [\<lparr>title = ''Image accessibility'',
            status = Warning,
            plainExplanation = show_num (missing altStats) @ '' images on your site have no text descriptions.'',
            whyItMatters = ''Google cannot 'see' images. It uses these descriptions to understand what's in the picture and rank you in Image Search.'',
            action = ''Add descriptive 'alt text' to every image on your page.''\<rparr>]
        else if gt_num (total_f altStats) 0 then
          [\<lparr>title = ''Image accessibility'',
            status = Good,
            plainExplanation = ''All your images have text descriptions.'',
            whyItMatters = ''This helps blind users and gives Google more keywords to rank you for.'',
            action = ''Perfect. No action needed.''\<rparr>]
        else [])"

definition contentStrength :: "PageFacts \<Rightarrow> MetricResult list" where
  "contentStrength data = [h1Metric data, wcMetric data] @ imageMetric data"

definition httpsMetric :: "PageFacts \<Rightarrow> MetricResult" where
  "httpsMetric data =
    (let isHttps = get (technical_f data \<bind> https) False
     in \<lparr>title = ''Connection Security'',
         status = (if isHttps then Good else Critical),
         plainExplanation = (if isHttps then ''Your connection is secure.''
                             else ''Your website is flagged as 'Not Secure' by Google.''),
         whyItMatters = ''Google downranks non-secure websites and browsers show a scary warning to your visitors.'',
         action = (if isHttps then ''No action needed.''
                   else ''Enable HTTPS (SSL certificate) immediately.'')\<rparr>)"

definition mobileMetric :: "PageFacts \<Rightarrow> MetricResult" where
  "mobileMetric data =
    (let isMobile = get (technical_f data \<bind> mobileFriendly) False
     in \<lparr>title = ''Mobile Friendliness'',
         status = (if isMobile then Good else Critical),
         plainExplanation = (if isMobile then ''Your site is built for mobile users.''
                             else ''Your site might be hard to use on a phone.''),
         whyItMatters = ''Over 60% of searches happen on mobile. Google uses the mobile version of your site to rank you.'',
         action = (if isMobile then ''No action needed.''
                   else ''Check your 'viewport' settings and ensure text isn't too small.'')\<rparr>)"

definition indexMetric :: "PageFacts \<Rightarrow> MetricResult" where
  "indexMetric data =
    (let noIndex = get (technical_f data \<bind> noindex) False
     in \<lparr>title = ''Search Visibility Lock'',
         status = (if noIndex then Critical else Good),
         plainExplanation = (if noIndex then ''Your site is currently hidden from Google.''
                             else ''Google is allowed to show your site in results.''),
         whyItMatters = ''If this is 'on', you will NEVER rank in Google, no matter how good your content is.'',
         action = (if noIndex then ''Remove the 'noindex' tag from your code.''
                   else ''Keep it as is.'')\<rparr>)"

definition sitemapMetric :: "PageFacts \<Rightarrow> MetricResult" where
  "sitemapMetric data =
    (let hasSitemap = get (technical_f data \<bind> sitemap) False
     in \<lparr>title = ''Google's Map (Sitemap)'',
         status = (if hasSitemap then Good else Warning),
         plainExplanation = (if hasSitemap then ''You have a map for Google to follow.''
                             else ''Google doesn't have an easy sitemap to find all your pages.''),
         whyItMatters = ''A sitemap helps Google find and crawl and index all your important pages faster.'',
         action = (if hasSitemap then ''No action needed.''
                   else ''Create a sitemap.xml file and submit it to Google.'')\<rparr>)"

definition technicalHealth :: "PageFacts \<Rightarrow> MetricResult list" where
  "technicalHealth data = [httpsMetric data, mobileMetric data, indexMetric data, sitemapMetric data]"

definition internalLinksMetric :: "PageFacts \<Rightarrow> MetricResult" where
  "internalLinksMetric data =
    (let internalCount = get (trust data \<bind> internalLinks) 0
     in \<lparr>title = ''Topic Connection'',
         status = (if internalCount > 5 then Good else Warning),
         plainExplanation = (if internalCount > 0 then ''You have '' @ show_int internalCount @ '' internal links.''
                             else ''No links to other pages on your site found.''),
         whyItMatters = ''Linking to your other pages helps Google understand your expertise and spreads 'ranking power' throughout your site.'',
         action = (if internalCount > 5 then ''Keep linking to relevant pages.''
                   else ''Add links to 5-10 other relevant pages on your website.'')\<rparr>)"

definition schemaMetric :: "PageFacts \<Rightarrow> MetricResult" where
  "schemaMetric data =
    (let hasSchema = get (trust data \<bind> hasSchema) False
     in \<lparr>title = ''Rich Search Results'',
         status = (if hasSchema then Good else Warning),
         plainExplanation = (if hasSchema then ''You are using special code to speak to Google.''
                             else ''You aren't using 'Schema' code on this page.''),
         whyItMatters = ''This code helps you get 'rich results' like star ratings, prices, or FAQ snippets that stand out.'',
         action = (if hasSchema then ''Ensure the data is accurate.''
                   else ''Add 'LD+JSON' schema markup for your business or product.'')\<rparr>)"

definition trustCredibility :: "PageFacts \<Rightarrow> MetricResult list" where
  "trustCredibility data = [internalLinksMetric data, schemaMetric data]"

definition growthSignals :: "MetricResult list" where
  "growthSignals =
    [\<lparr>title = ''Other Sites Recommending You'',
      status = Unknown,
      plainExplanation = ''We couldn't determine the number of websites linking to you.'',
      whyItMatters = ''Getting links from other sites is the #1 way to build authority and outrank big competitors.'',
      action = ''Register for a free service like Google Search Console to see your backlinks.''\<rparr>,
     \<lparr>title = ''Domain Authority'',
      status = Unknown,
      plainExplanation = ''Domain age and history could not be verified.'',
      whyItMatters = ''Older, well-established sites often have an easier time ranking than brand new ones.'',
      action = ''Focus on creating high-quality, unique content to build your site's reputation over time.''\<rparr>]"

definition buildSections :: "PageFacts \<Rightarrow> SeoSection list" where
  "buildSections data =
    [\<lparr>name = ''Search visibility'', metrics = searchVisibility data\<rparr>,
     \<lparr>name = ''Content strength'', metrics = contentStrength data\<rparr>,
     \<lparr>name = ''Technical health'', metrics = technicalHealth data\<rparr>,
     \<lparr>name = ''Trust & credibility'', metrics = trustCredibility data\<rparr>,
     \<lparr>name = ''Growth signals'', metrics = growthSignals\<rparr>]"

subsection \<open>Summary, breakdown and aggregate score\<close>

text \<open>A parameter whose name is also a record field carries a prime.
  \<open>criticalMetris\<close> and \<open>summaryActions\<close> are the two steps under "Summary logic":
  collecting the critical results, then slicing, mapping and the fallback push. The nested \<^verbatim>\<open>forEach\<close> loops are folds over the sections and over each section's
  metrics, with the array being filled (or the two counters) as the accumulator.\<close>

definition criticalMetris :: "SeoSection list \<Rightarrow> MetricResult list" where
  "criticalMetris sections' =
     fold (\<lambda>s. fold (\<lambda>m acc. if status m = Critical then acc @ [m] else acc) (metrics s))
       sections' []"

definition summaryActions :: "SeoSection list \<Rightarrow> string list" where
  "summaryActions sections' =
    (let actions = map action (take 4 (criticalMetris sections'))
     in if length actions = 0
        then actions @ [''Focus on getting more high-quality links from other websites.'']
        else actions)"

definition calculateCat :: "MetricResult list \<Rightarrow> string \<Rightarrow> string \<Rightarrow> SeoBreakdownCategory" where
  "calculateCat metrics' label' description' =
    (let total = length metrics';
         passed = length (filter (\<lambda>m. status m = Good) metrics');
         score = (if total > 0
                  then clamp (Math_round ((of_nat passed / of_nat total) * 100)) 15 95
                  else 15)
     in \<lparr>SeoBreakdownCategory.score = score,
         label = label',
         description = description',
         passed = passed,
         total = total,
         priority = getPriority score\<rparr>)"

text \<open>\<open>areaSummary\<close> is the block under "Determine weakest/strongest", as a function of
  the three category scores.
  \<^verbatim>\<open>categories.sort((a, b) => a.score - b.score)\<close> is a stable ascending sort on the
  score; \<open>sort_key\<close> is the stable insertion sort of the list library. The array has three
  entries, so the reads at index 0 and 2 are in range.\<close>

definition areaSummary :: "int \<Rightarrow> int \<Rightarrow> int \<Rightarrow> BreakdownSummary" where
  "areaSummary onPageScore technicalScore authorityScore =
    (let categories = sort_key snd
           [(''onPage'', onPageScore), (''technical'', technicalScore), (''authority'', authorityScore)]
     in \<lparr>weakestArea = fst (categories ! 0),
         strongestArea = fst (categories ! 2),
         recommendedFocus = fst (categories ! 0)\<rparr>)"

text \<open>\<^verbatim>\<open>total / count\<close> with both zero is \<^verbatim>\<open>NaN\<close>, and \<^verbatim>\<open>Math.round(NaN)\<close> is
  \<^verbatim>\<open>NaN\<close>: the result \<open>None\<close>.\<close>

definition calculateAggregatedScore :: "SeoSection list \<Rightarrow> int option" where
  "calculateAggregatedScore sections' =
    (let (total, count) =
           fold (\<lambda>s. fold (\<lambda>m (total, count).
                    (if status m = Good then total + 100
                     else if status m = Warning then total + 50
                     else if status m = Critical then total + 0
                     else total + 70,
                     count + 1)) (metrics s))
             sections' (0 :: int, 0 :: nat)
     in if count = 0 then None else Some (Math_round (of_int total / of_nat count)))"

definition interpretSeoMetrics :: "PageFacts \<Rightarrow> SeoReport" where
  "interpretSeoMetrics data =
    (let sections = buildSections data;
         actions = summaryActions sections;
         onPageCat = calculateCat (searchVisibility data @ contentStrength data)
                       ''On-page SEO'' ''Content and keyword optimization'';
         technicalCat = calculateCat (technicalHealth data)
                       ''Technical SEO'' ''Speed, crawlability, and indexability'';
         authorityCat = calculateCat (trustCredibility data @ growthSignals)
                       ''Authority'' ''Links, trust, and domain strength''
     in \<lparr>sections = sections,
         SeoReport.summary = \<lparr>actions = actions\<rparr>,
         SeoReport.score = calculateAggregatedScore sections,
         seoBreakdown =
           \<lparr>onPage = onPageCat,
            technical = technicalCat,
            authority = authorityCat,
            SeoBreakdown.summary =
              areaSummary (SeoBreakdownCategory.score onPageCat)
                (SeoBreakdownCategory.score technicalCat)
                (SeoBreakdownCategory.score authorityCat)\<rparr>\<rparr>)"

subsection \<open>Notions of the specification\<close>

text \<open>The point value of a status, as the specification lists it.\<close>

definition statusPoints :: "Status \<Rightarrow> int" where
  "statusPoints st = (case st of Good \<Rightarrow> 100 | Warning \<Rightarrow> 50 | Critical \<Rightarrow> 0 | Unknown \<Rightarrow> 70)"

text \<open>All emitted results of a report, section by section and rule by rule.\<close>

definition allMetrics :: "SeoReport \<Rightarrow> MetricResult list" where
  "allMetrics r = concat (map metrics (sections r))"

definition sectionNames :: "string list" where
  "sectionNames = [''Search visibility'', ''Content strength'', ''Technical health'',
     ''Trust & credibility'', ''Growth signals'']"

text \<open>The results a breakdown category aggregates: on-page is Search visibility and
  Content strength, technical is Technical health, authority is Trust & credibility and
  Growth signals.\<close>

definition specOnPageMetrics :: "SeoReport \<Rightarrow> MetricResult list" where
  "specOnPageMetrics r = metrics (sections r ! 0) @ metrics (sections r ! 1)"

definition specTechnicalMetrics :: "SeoReport \<Rightarrow> MetricResult list" where
  "specTechnicalMetrics r = metrics (sections r ! 2)"

definition specAuthorityMetrics :: "SeoReport \<Rightarrow> MetricResult list" where
  "specAuthorityMetrics r = metrics (sections r ! 3) @ metrics (sections r ! 4)"

text \<open>The category score in the words of the specification: the share of good results in
  per cent, rounded, and clamped to the range from 15 to 95; 15 for an empty category.\<close>

definition specPassed :: "MetricResult list \<Rightarrow> nat" where
  "specPassed ms = length (filter (\<lambda>m. status m = Good) ms)"

definition specCategoryScore :: "MetricResult list \<Rightarrow> int" where
  "specCategoryScore ms =
     (if length ms = 0 then 15
      else max 15 (min 95 (round (rat_of_nat (specPassed ms) / rat_of_nat (length ms) * 100))))"

definition specPriority :: "int \<Rightarrow> Priority" where
  "specPriority s = (if s < 30 then PriorityCritical else if s < 70 then PriorityWarning else PriorityGood)"

text \<open>Nine results of which three are good.\<close>

definition sampleMetric :: "Status \<Rightarrow> MetricResult" where
  "sampleMetric st = \<lparr>title = ''Sample'', status = st, plainExplanation = '''', whyItMatters = '''', action = ''''\<rparr>"

definition nineMetrics :: "MetricResult list" where
  "nineMetrics = [sampleMetric Good, sampleMetric Warning, sampleMetric Critical,
                  sampleMetric Good, sampleMetric Unknown, sampleMetric Critical,
                  sampleMetric Good, sampleMetric Warning, sampleMetric Critical]"

text \<open>The critical results of a report, in section-then-rule order.\<close>

definition criticalResults :: "SeoReport \<Rightarrow> MetricResult list" where
  "criticalResults r = filter (\<lambda>m. status m = Critical) (allMetrics r)"

text \<open>Example inputs: no field present at all, and a page on which no rule is critical.\<close>

definition emptyFacts :: PageFacts where
  "emptyFacts = \<lparr>onpage = None, technical_f = None, trust = None\<rparr>"

definition healthyFacts :: PageFacts where
  "healthyFacts =
    \<lparr>onpage = Some
       \<lparr>title_f = Some \<lparr>text_f = None, length_f = Some 45, exists_f = Some True\<rparr>,
        meta = Some \<lparr>text_f = None, length_f = Some 120, exists_f = Some True\<rparr>,
        headings = Some \<lparr>h1Count = Some 1, h2Count = Some 2, h3Count = Some 0,
                          h1Exists = Some True, h1Unique = Some True\<rparr>,
        og = Some \<lparr>hasOg = Some True\<rparr>,
        images = Some \<lparr>altStats = Some \<lparr>total_f = Some 10, missing = Some 3\<rparr>\<rparr>,
        content = Some \<lparr>wordCount = Some 700\<rparr>\<rparr>,
     technical_f = Some \<lparr>https = Some True, mobileFriendly = Some True,
                           noindex = Some False, sitemap = Some True\<rparr>,
     trust = Some \<lparr>internalLinks = Some 6, hasSchema = Some True\<rparr>\<rparr>"

text \<open>The title facts after defaulting: an absent object or leaf counts as \<open>False\<close> or 0.
  The status chain of the title rule in the words of the specification, and facts that hold
  nothing but an existing title of a given length.\<close>

definition factTitleExists :: "PageFacts \<Rightarrow> bool" where
  "factTitleExists data =
     (case onpage data of None \<Rightarrow> False
      | Some p \<Rightarrow> (case title_f p of None \<Rightarrow> False
          | Some t \<Rightarrow> (case exists_f t of None \<Rightarrow> False | Some b \<Rightarrow> b)))"

definition factTitleLength :: "PageFacts \<Rightarrow> int" where
  "factTitleLength data =
     (case onpage data of None \<Rightarrow> 0
      | Some p \<Rightarrow> (case title_f p of None \<Rightarrow> 0
          | Some t \<Rightarrow> (case length_f t of None \<Rightarrow> 0 | Some n \<Rightarrow> n)))"

definition specTitleStatus :: "bool \<Rightarrow> int \<Rightarrow> Status" where
  "specTitleStatus titleExists titleLength =
     (if \<not> titleExists then Critical
      else if titleLength > 60 then Critical
      else if titleLength < 30 then Warning
      else Good)"

definition titleFacts :: "int \<Rightarrow> PageFacts" where
  "titleFacts n =
    \<lparr>onpage = Some
       \<lparr>title_f = Some \<lparr>text_f = None, length_f = Some n, exists_f = Some True\<rparr>,
        meta = None, headings = None, og = None, images = None, content = None\<rparr>,
     technical_f = None, trust = None\<rparr>"

text \<open>The image counts after defaulting, the results titled Image accessibility in the
  Content strength section, and facts that hold nothing but the two image counts.\<close>

definition factImageTotal :: "PageFacts \<Rightarrow> int" where
  "factImageTotal data =
     (case onpage data of None \<Rightarrow> 0
      | Some p \<Rightarrow> (case images p of None \<Rightarrow> 0
          | Some i \<Rightarrow> (case altStats i of None \<Rightarrow> 0
              | Some a \<Rightarrow> (case total_f a of None \<Rightarrow> 0 | Some n \<Rightarrow> n))))"

definition factImageMissing :: "PageFacts \<Rightarrow> int" where
  "factImageMissing data =
     (case onpage data of None \<Rightarrow> 0
      | Some p \<Rightarrow> (case images p of None \<Rightarrow> 0
          | Some i \<Rightarrow> (case altStats i of None \<Rightarrow> 0
              | Some a \<Rightarrow> (case missing a of None \<Rightarrow> 0 | Some n \<Rightarrow> n))))"

definition imageResults :: "SeoReport \<Rightarrow> MetricResult list" where
  "imageResults r = filter (\<lambda>m. title m = ''Image accessibility'') (metrics (sections r ! 1))"

definition imageFacts :: "int \<Rightarrow> int \<Rightarrow> PageFacts" where
  "imageFacts t m =
    \<lparr>onpage = Some
       \<lparr>title_f = None, meta = None, headings = None, og = None,
        images = Some \<lparr>altStats = Some \<lparr>total_f = Some t, missing = Some m\<rparr>\<rparr>,
        content = None\<rparr>,
     technical_f = None, trust = None\<rparr>"

text \<open>The comparison array in its fixed order. The weakest area is the first entry of the
  array that has the lowest score, the strongest the last entry that has the highest: what
  a stable ascending sort puts first and last.\<close>

definition categoryScores :: "SeoReport \<Rightarrow> (string \<times> int) list" where
  "categoryScores r =
     [(''onPage'', SeoBreakdownCategory.score (onPage (seoBreakdown r))),
      (''technical'', SeoBreakdownCategory.score (technical (seoBreakdown r))),
      (''authority'', SeoBreakdownCategory.score (authority (seoBreakdown r)))]"

definition specWeakest :: "(string \<times> int) list \<Rightarrow> string" where
  "specWeakest cats = fst (hd (filter (\<lambda>c. snd c = Min (set (map snd cats))) cats))"

definition specStrongest :: "(string \<times> int) list \<Rightarrow> string" where
  "specStrongest cats = fst (last (filter (\<lambda>c. snd c = Max (set (map snd cats))) cats))"

text \<open>The normalisation the specification describes: every absent object or leaf is
  replaced by its default (0, \<open>False\<close>, the empty string, zero image counts).\<close>

definition defaultText :: "TextFacts option \<Rightarrow> TextFacts" where
  "defaultText t =
     \<lparr>text_f = Some (get (t \<bind> text_f) []),
      length_f = Some (get (t \<bind> length_f) 0),
      exists_f = Some (get (t \<bind> exists_f) False)\<rparr>"

definition defaultOnPage :: "OnPageFacts option \<Rightarrow> OnPageFacts" where
  "defaultOnPage p =
     \<lparr>title_f = Some (defaultText (p \<bind> title_f)),
      meta = Some (defaultText (p \<bind> meta)),
      headings = Some
        \<lparr>h1Count = Some (get (p \<bind> headings \<bind> h1Count) 0),
         h2Count = Some (get (p \<bind> headings \<bind> h2Count) 0),
         h3Count = Some (get (p \<bind> headings \<bind> h3Count) 0),
         h1Exists = Some (get (p \<bind> headings \<bind> h1Exists) False),
         h1Unique = Some (get (p \<bind> headings \<bind> h1Unique) False)\<rparr>,
      og = Some \<lparr>hasOg = Some (get (p \<bind> og \<bind> hasOg) False)\<rparr>,
      images = Some \<lparr>altStats = Some
        \<lparr>total_f = Some (get (p \<bind> images \<bind> altStats \<bind> total_f) 0),
         missing = Some (get (p \<bind> images \<bind> altStats \<bind> missing) 0)\<rparr>\<rparr>,
      content = Some \<lparr>wordCount = Some (get (p \<bind> content \<bind> wordCount) 0)\<rparr>\<rparr>"

definition specDefaults :: "PageFacts \<Rightarrow> PageFacts" where
  "specDefaults data =
     \<lparr>onpage = Some (defaultOnPage (onpage data)),
      technical_f = Some
        \<lparr>https = Some (get (technical_f data \<bind> https) False),
         mobileFriendly = Some (get (technical_f data \<bind> mobileFriendly) False),
         noindex = Some (get (technical_f data \<bind> noindex) False),
         sitemap = Some (get (technical_f data \<bind> sitemap) False)\<rparr>,
      trust = Some
        \<lparr>internalLinks = Some (get (trust data \<bind> internalLinks) 0),
         hasSchema = Some (get (trust data \<bind> hasSchema) False)\<rparr>\<rparr>"

subsection \<open>Null in place of an object\<close>

text \<open>
  The parameter is \<^verbatim>\<open>data: any\<close>, so a key that should hold an object may hold
  \<^verbatim>\<open>null\<close>. \<open>AnyPageFacts\<close> is \<open>PageFacts\<close> with that possibility at every object-valued
  key: absent, \<^verbatim>\<open>null\<close>, or an object. The leaves are as before.

  \<^verbatim>\<open>get\<close> tests \<^verbatim>\<open>o && o[key] !== undefined\<close> at every step. At an inner step a
  \<^verbatim>\<open>null\<close> object is falsy and the walk continues with the default, as for an absent
  one (\<open>truthyObject\<close>). At the last step only \<^verbatim>\<open>undefined\<close> is replaced: a key that
  holds \<^verbatim>\<open>null\<close> yields \<^verbatim>\<open>null\<close>. The one value read this way that is an object is
  \<^verbatim>\<open>altStats\<close>, and the next statement reads \<^verbatim>\<open>altStats.total\<close>, which throws a
  \<^verbatim>\<open>TypeError\<close> on \<^verbatim>\<open>null\<close>.
\<close>

datatype error = TypeError

datatype 'a nullable = Null | Object 'a

record AnyImageFacts =
  altStats_any :: "AltStats nullable option"

record AnyOnPageFacts =
  title_any :: "TextFacts nullable option"
  meta_any :: "TextFacts nullable option"
  headings_any :: "HeadingFacts nullable option"
  og_any :: "OgFacts nullable option"
  images_any :: "AnyImageFacts nullable option"
  content_any :: "ContentFacts nullable option"

record AnyPageFacts =
  onpage_any :: "AnyOnPageFacts nullable option"
  technical_any :: "TechnicalFacts nullable option"
  trust_any :: "TrustFacts nullable option"

definition truthyObject :: "'a nullable option \<Rightarrow> 'a option" where
  "truthyObject v = (case v of None \<Rightarrow> None | Some Null \<Rightarrow> None | Some (Object x) \<Rightarrow> Some x)"

text \<open>The image rule (the lines under "Image Alt Tags") on such facts: the value got for
  \<^verbatim>\<open>altStats\<close>, then the property reads on it. Where that value is an object it is
  \<open>altStats'\<close> below, and the three branches are those of \<open>imageMetric\<close>.\<close>

definition imageMetricAny :: "AnyPageFacts \<Rightarrow> error + MetricResult list" where
  "imageMetricAny data =
    (let altStats = get (truthyObject (onpage_any data) \<bind> (\<lambda>p. truthyObject (images_any p))
                           \<bind> altStats_any)
                        (Object \<lparr>total_f = Some 0, missing = Some 0\<rparr>)
     in case altStats of
          Null \<Rightarrow> Inl TypeError
        | Object altStats' \<Rightarrow> Inr
           (if gt_num (total_f altStats') 0 \<and> gt_num (missing altStats') 0 then
              [\<lparr>title = ''Image accessibility'',
                status = Warning,
                plainExplanation = show_num (missing altStats') @ '' images on your site have no text descriptions.'',
                whyItMatters = ''Google cannot 'see' images. It uses these descriptions to understand what's in the picture and rank you in Image Search.'',
                action = ''Add descriptive 'alt text' to every image on your page.''\<rparr>]
            else if gt_num (total_f altStats') 0 then
              [\<lparr>title = ''Image accessibility'',
                status = Good,
                plainExplanation = ''All your images have text descriptions.'',
                whyItMatters = ''This helps blind users and gives Google more keywords to rank you for.'',
                action = ''Perfect. No action needed.''\<rparr>]
            else []))"

text \<open>Every other read is of a leaf, through \<^verbatim>\<open>get\<close>, and is only negated, compared or
  printed. For those reads a \<^verbatim>\<open>null\<close> object is an absent one: \<open>definedFacts\<close> drops
  the \<^verbatim>\<open>null\<close> objects. The whole function on such facts stops with the error of the
  image rule, and is \<open>interpretSeoMetrics\<close> on the facts without \<^verbatim>\<open>null\<close> otherwise
  (what the image rule pushed is then what \<open>imageMetric\<close> yields on those facts, lemma
  \<open>imageMetricAny_returns\<close>).\<close>

definition definedImages :: "AnyImageFacts \<Rightarrow> ImageFacts" where
  "definedImages i = \<lparr>altStats = truthyObject (altStats_any i)\<rparr>"

definition definedOnPage :: "AnyOnPageFacts \<Rightarrow> OnPageFacts" where
  "definedOnPage p =
     \<lparr>title_f = truthyObject (title_any p),
      meta = truthyObject (meta_any p),
      headings = truthyObject (headings_any p),
      og = truthyObject (og_any p),
      images = map_option definedImages (truthyObject (images_any p)),
      content = truthyObject (content_any p)\<rparr>"

definition definedFacts :: "AnyPageFacts \<Rightarrow> PageFacts" where
  "definedFacts data =
     \<lparr>onpage = map_option definedOnPage (truthyObject (onpage_any data)),
      technical_f = truthyObject (technical_any data),
      trust = truthyObject (trust_any data)\<rparr>"

definition interpretSeoMetricsAny :: "AnyPageFacts \<Rightarrow> error + SeoReport" where
  "interpretSeoMetricsAny data =
     (case imageMetricAny data of
        Inl e \<Rightarrow> Inl e
      | Inr pushed \<Rightarrow> Inr (interpretSeoMetrics (definedFacts data)))"

text \<open>Three inputs: \<^verbatim>\<open>{onpage: {images: {altStats: null}}}\<close>,
  \<^verbatim>\<open>{onpage: {images: null}}\<close> and \<^verbatim>\<open>{onpage: null}\<close>.\<close>

definition nullAltStatsFacts :: AnyPageFacts where
  "nullAltStatsFacts =
     \<lparr>onpage_any = Some (Object
        \<lparr>title_any = None, meta_any = None, headings_any = None, og_any = None,
         images_any = Some (Object \<lparr>altStats_any = Some Null\<rparr>),
         content_any = None\<rparr>),
      technical_any = None, trust_any = None\<rparr>"

definition nullImagesFacts :: AnyPageFacts where
  "nullImagesFacts =
     \<lparr>onpage_any = Some (Object
        \<lparr>title_any = None, meta_any = None, headings_any = None, og_any = None,
         images_any = Some Null,
         content_any = None\<rparr>),
      technical_any = None, trust_any = None\<rparr>"

definition nullOnpageFacts :: AnyPageFacts where
  "nullOnpageFacts = \<lparr>onpage_any = Some Null, technical_any = None, trust_any = None\<rparr>"

section \<open>Properties\<close>

subsection \<open>Rounding\<close>

lemma Math_round_eq_round: "Math_round x = round x"
  by (simp add: Math_round_def round_def)

lemma Math_round_quotient:
  assumes "0 < t"
  shows "Math_round (of_nat p / of_nat t * 100) = (200 * int p + int t) div (2 * int t)"
proof -
  have "(of_nat p / of_nat t * 100 + 1 / 2 :: rat) = of_int (200 * int p + int t) / of_int (2 * int t)"
    using assms by (simp add: field_simps)
  then show ?thesis
    unfolding Math_round_def by (simp only: floor_divide_of_int_eq)
qed

lemma round_avg_bounds:
  assumes "0 \<le> t" and "t \<le> 100 * int n"
  shows "0 \<le> round (rat_of_int t / rat_of_nat n) \<and> round (rat_of_int t / rat_of_nat n) \<le> 100"
proof (cases "n = 0")
  case True
  then show ?thesis by simp
next
  case False
  have lo: "(0::rat) \<le> rat_of_int t / rat_of_nat n"
    using assms(1) by simp
  have "rat_of_int t \<le> 100 * rat_of_nat n"
    using assms(2) by (metis of_int_le_iff of_int_mult of_int_numeral of_int_of_nat_eq)
  then have hi: "rat_of_int t / rat_of_nat n \<le> 100"
    using False by (simp add: field_simps)
  from round_mono [OF lo] round_mono [OF hi] show ?thesis by simp
qed

subsection \<open>The loops as list functions\<close>

lemma fold_sections:
  "fold (\<lambda>s. fold f (metrics s)) secs acc = fold f (concat (map metrics secs)) acc"
  by (induction secs arbitrary: acc) simp_all

lemma inner_critical_fold:
  "fold (\<lambda>m acc. if status m = Critical then acc @ [m] else acc) ms acc =
     acc @ filter (\<lambda>m. status m = Critical) ms"
  by (induction ms arbitrary: acc) simp_all

lemma criticalMetris_filter:
  "criticalMetris secs = filter (\<lambda>m. status m = Critical) (concat (map metrics secs))"
  by (simp add: criticalMetris_def fold_sections inner_critical_fold)

lemma points_chain:
  "(if st = Good then t + 100 else if st = Warning then t + 50
    else if st = Critical then t + 0 else t + 70) = t + statusPoints st"
  by (cases st) (simp_all add: statusPoints_def)

lemma inner_score_fold:
  "fold (\<lambda>m (total, count).
           (if status m = Good then total + 100
            else if status m = Warning then total + 50
            else if status m = Critical then total + 0
            else total + 70, count + 1)) ms (t, c) =
     (t + sum_list (map (statusPoints \<circ> status) ms), c + length ms)"
  by (induction ms arbitrary: t c) (simp_all add: points_chain)

lemma calculateAggregatedScore_eq:
  "calculateAggregatedScore secs =
    (if concat (map metrics secs) = [] then None
     else Some (Math_round (of_int (sum_list (map (statusPoints \<circ> status) (concat (map metrics secs))))
                 / of_nat (length (concat (map metrics secs))))))"
  unfolding calculateAggregatedScore_def fold_sections inner_score_fold by simp

lemma statusPoints_bounds: "0 \<le> statusPoints st \<and> statusPoints st \<le> 100"
  by (cases st) (simp_all add: statusPoints_def)

lemma sum_points_bounds:
  "0 \<le> sum_list (map (statusPoints \<circ> status) ms) \<and>
   sum_list (map (statusPoints \<circ> status) ms) \<le> 100 * int (length ms)"
proof (induction ms)
  case Nil
  show ?case by simp
next
  case (Cons m ms)
  from statusPoints_bounds [of "status m"] Cons show ?case by simp
qed

subsection \<open>The fields of the report\<close>

lemma sections_interpret: "sections (interpretSeoMetrics data) = buildSections data"
  by (simp add: interpretSeoMetrics_def Let_def)

lemma score_interpret:
  "SeoReport.score (interpretSeoMetrics data) = calculateAggregatedScore (buildSections data)"
  by (simp add: interpretSeoMetrics_def Let_def)

lemma actions_interpret:
  "actions (SeoReport.summary (interpretSeoMetrics data)) = summaryActions (buildSections data)"
  by (simp add: interpretSeoMetrics_def Let_def)

lemma names_interpret: "map name (sections (interpretSeoMetrics data)) = sectionNames"
  by (simp add: sections_interpret buildSections_def sectionNames_def)

lemma allMetrics_interpret:
  "allMetrics (interpretSeoMetrics data) =
     searchVisibility data @ contentStrength data @ technicalHealth data
       @ trustCredibility data @ growthSignals"
  by (simp add: allMetrics_def sections_interpret buildSections_def)

lemma allMetrics_nonempty: "allMetrics (interpretSeoMetrics data) \<noteq> []"
  by (simp add: allMetrics_interpret searchVisibility_def)

lemma length_imageMetric: "length (imageMetric data) \<le> 1"
  by (simp add: imageMetric_def Let_def)

lemma length_allMetrics:
  "length (allMetrics (interpretSeoMetrics data)) = 13 + length (imageMetric data)"
  by (simp add: allMetrics_interpret searchVisibility_def contentStrength_def technicalHealth_def
      trustCredibility_def growthSignals_def)

lemma score_interpret_round:
  "SeoReport.score (interpretSeoMetrics data) =
     Some (round (rat_of_int (sum_list (map (statusPoints \<circ> status) (allMetrics (interpretSeoMetrics data))))
                 / rat_of_nat (length (allMetrics (interpretSeoMetrics data)))))"
  using allMetrics_nonempty [of data]
  by (simp add: score_interpret calculateAggregatedScore_eq allMetrics_def sections_interpret
      Math_round_eq_round)

subsection \<open>Aggregate score\<close>

text \<open>
  Claim C1. For every facts record the report has the five sections, which together hold
  13 or 14 results, and its score is the average, over all results of all five sections
  (growth signals included), of the point value of the result's status (good 100, warning
  50, critical 0, unknown 70), rounded to the nearest integer: the score is defined, it is
  \<open>round\<close> of the exact average, and it lies within one half of it.
\<close>

theorem C1_aggregate_score:
  "map name (sections (interpretSeoMetrics data)) = sectionNames \<and>
   allMetrics (interpretSeoMetrics data) \<noteq> [] \<and>
   13 \<le> length (allMetrics (interpretSeoMetrics data)) \<and>
   length (allMetrics (interpretSeoMetrics data)) \<le> 14 \<and>
   (\<exists>s. SeoReport.score (interpretSeoMetrics data) = Some s \<and>
        s = round (rat_of_int (sum_list (map (statusPoints \<circ> status) (allMetrics (interpretSeoMetrics data))))
                   / rat_of_nat (length (allMetrics (interpretSeoMetrics data)))) \<and>
        \<bar>rat_of_int s
          - rat_of_int (sum_list (map (statusPoints \<circ> status) (allMetrics (interpretSeoMetrics data))))
            / rat_of_nat (length (allMetrics (interpretSeoMetrics data)))\<bar> \<le> 1 / 2)"
proof -
  let ?avg = "rat_of_int (sum_list (map (statusPoints \<circ> status) (allMetrics (interpretSeoMetrics data))))
                / rat_of_nat (length (allMetrics (interpretSeoMetrics data)))"
  have sc: "SeoReport.score (interpretSeoMetrics data) = Some (round ?avg)"
    by (rule score_interpret_round)
  have near: "\<bar>rat_of_int (round ?avg) - ?avg\<bar> \<le> 1 / 2"
    by (rule of_int_round_abs_le)
  have len: "13 \<le> length (allMetrics (interpretSeoMetrics data))"
    "length (allMetrics (interpretSeoMetrics data)) \<le> 14"
    using length_imageMetric [of data] by (simp_all add: length_allMetrics)
  from sc near names_interpret [of data] allMetrics_nonempty [of data] len
  show ?thesis by blast
qed

subsection \<open>Growth signals\<close>

text \<open>
  Claim C7. The report has five sections; the fifth, Growth signals, holds exactly the two
  results of the constant \<open>growthSignals\<close>, both of status unknown, with fixed titles and
  texts, and the section is the same for any two inputs.
\<close>

theorem C7_growth_signals:
  "length (sections (interpretSeoMetrics data)) = 5 \<and>
   name (sections (interpretSeoMetrics data) ! 4) = ''Growth signals'' \<and>
   metrics (sections (interpretSeoMetrics data) ! 4) = growthSignals \<and>
   length growthSignals = 2 \<and>
   map status growthSignals = [Unknown, Unknown] \<and>
   map title growthSignals = [''Other Sites Recommending You'', ''Domain Authority''] \<and>
   sections (interpretSeoMetrics data) ! 4 = sections (interpretSeoMetrics data') ! 4"
  by (simp add: sections_interpret buildSections_def growthSignals_def)

subsection \<open>Score bounds\<close>

text \<open>
  Claim C8. For every facts record the aggregate score is defined and lies between 0 and
  100, and each of the three category scores lies between 15 and 95.
\<close>

theorem C8_score_bounds:
  "(\<exists>s. SeoReport.score (interpretSeoMetrics data) = Some s \<and> 0 \<le> s \<and> s \<le> 100) \<and>
   15 \<le> SeoBreakdownCategory.score (onPage (seoBreakdown (interpretSeoMetrics data))) \<and>
   SeoBreakdownCategory.score (onPage (seoBreakdown (interpretSeoMetrics data))) \<le> 95 \<and>
   15 \<le> SeoBreakdownCategory.score (technical (seoBreakdown (interpretSeoMetrics data))) \<and>
   SeoBreakdownCategory.score (technical (seoBreakdown (interpretSeoMetrics data))) \<le> 95 \<and>
   15 \<le> SeoBreakdownCategory.score (authority (seoBreakdown (interpretSeoMetrics data))) \<and>
   SeoBreakdownCategory.score (authority (seoBreakdown (interpretSeoMetrics data))) \<le> 95"
proof -
  let ?ms = "allMetrics (interpretSeoMetrics data)"
  from sum_points_bounds [of ?ms]
  have "0 \<le> round (rat_of_int (sum_list (map (statusPoints \<circ> status) ?ms)) / rat_of_nat (length ?ms)) \<and>
        round (rat_of_int (sum_list (map (statusPoints \<circ> status) ?ms)) / rat_of_nat (length ?ms)) \<le> 100"
    by (intro round_avg_bounds) simp_all
  then have agg: "\<exists>s. SeoReport.score (interpretSeoMetrics data) = Some s \<and> 0 \<le> s \<and> s \<le> 100"
    by (simp add: score_interpret_round)
  have cat: "15 \<le> SeoBreakdownCategory.score (calculateCat ms l d) \<and>
             SeoBreakdownCategory.score (calculateCat ms l d) \<le> 95" for ms l d
    by (simp add: calculateCat_def Let_def clamp_def)
  from agg cat show ?thesis
    by (simp add: interpretSeoMetrics_def Let_def)
qed

subsection \<open>Breakdown categories\<close>

lemma onPage_interpret:
  "onPage (seoBreakdown (interpretSeoMetrics data)) =
     calculateCat (searchVisibility data @ contentStrength data) ''On-page SEO'' ''Content and keyword optimization''"
  by (simp add: interpretSeoMetrics_def Let_def)

lemma technical_interpret:
  "technical (seoBreakdown (interpretSeoMetrics data)) =
     calculateCat (technicalHealth data) ''Technical SEO'' ''Speed, crawlability, and indexability''"
  by (simp add: interpretSeoMetrics_def Let_def)

lemma authority_interpret:
  "authority (seoBreakdown (interpretSeoMetrics data)) =
     calculateCat (trustCredibility data @ growthSignals) ''Authority'' ''Links, trust, and domain strength''"
  by (simp add: interpretSeoMetrics_def Let_def)

lemma specOnPageMetrics_interpret:
  "specOnPageMetrics (interpretSeoMetrics data) = searchVisibility data @ contentStrength data"
  by (simp add: specOnPageMetrics_def sections_interpret buildSections_def)

lemma specTechnicalMetrics_interpret:
  "specTechnicalMetrics (interpretSeoMetrics data) = technicalHealth data"
  by (simp add: specTechnicalMetrics_def sections_interpret buildSections_def)

lemma specAuthorityMetrics_interpret:
  "specAuthorityMetrics (interpretSeoMetrics data) = trustCredibility data @ growthSignals"
  by (simp add: specAuthorityMetrics_def sections_interpret buildSections_def)

lemma calculateCat_spec:
  "SeoBreakdownCategory.score (calculateCat ms l d) = specCategoryScore ms \<and>
   priority (calculateCat ms l d) = specPriority (SeoBreakdownCategory.score (calculateCat ms l d)) \<and>
   passed (calculateCat ms l d) = specPassed ms \<and>
   total (calculateCat ms l d) = length ms"
  by (simp add: calculateCat_def Let_def specCategoryScore_def specPassed_def specPriority_def
      getPriority_def clamp_def Math_round_eq_round)

lemma calculateCat_nine:
  assumes "length ms = 9" and "specPassed ms = 3"
  shows "SeoBreakdownCategory.score (calculateCat ms l d) = 33 \<and>
         priority (calculateCat ms l d) = PriorityWarning"
proof -
  have "Math_round (rat_of_nat (specPassed ms) / rat_of_nat (length ms) * 100)
          = (200 * int (specPassed ms) + int (length ms)) div (2 * int (length ms))"
    by (rule Math_round_quotient) (simp add: assms)
  also have "\<dots> = 33"
    by (simp add: assms)
  finally have "Math_round (rat_of_nat (length (filter (\<lambda>m. status m = Good) ms)) / rat_of_nat (length ms) * 100) = 33"
    by (simp only: specPassed_def)
  then show ?thesis
    using assms(1) by (simp add: calculateCat_def Let_def clamp_def getPriority_def)
qed

text \<open>
  Claim C2. For each of the three breakdown categories the score is the rounded share of
  good results among the category's results, in per cent, clamped to the range from 15 to
  95, and the priority is critical below 30, warning below 70 and good otherwise; passed
  and total are the number of good results and of all results. A category without metrics
  gets the score 15. Any nine results of which three are good give the score 33 and the
  priority warning.
\<close>

theorem C2_category_scores:
  "(SeoBreakdownCategory.score (onPage (seoBreakdown (interpretSeoMetrics data)))
      = specCategoryScore (specOnPageMetrics (interpretSeoMetrics data)) \<and>
    priority (onPage (seoBreakdown (interpretSeoMetrics data)))
      = specPriority (SeoBreakdownCategory.score (onPage (seoBreakdown (interpretSeoMetrics data)))) \<and>
    passed (onPage (seoBreakdown (interpretSeoMetrics data)))
      = specPassed (specOnPageMetrics (interpretSeoMetrics data)) \<and>
    total (onPage (seoBreakdown (interpretSeoMetrics data)))
      = length (specOnPageMetrics (interpretSeoMetrics data))) \<and>
   (SeoBreakdownCategory.score (technical (seoBreakdown (interpretSeoMetrics data)))
      = specCategoryScore (specTechnicalMetrics (interpretSeoMetrics data)) \<and>
    priority (technical (seoBreakdown (interpretSeoMetrics data)))
      = specPriority (SeoBreakdownCategory.score (technical (seoBreakdown (interpretSeoMetrics data)))) \<and>
    passed (technical (seoBreakdown (interpretSeoMetrics data)))
      = specPassed (specTechnicalMetrics (interpretSeoMetrics data)) \<and>
    total (technical (seoBreakdown (interpretSeoMetrics data)))
      = length (specTechnicalMetrics (interpretSeoMetrics data))) \<and>
   (SeoBreakdownCategory.score (authority (seoBreakdown (interpretSeoMetrics data)))
      = specCategoryScore (specAuthorityMetrics (interpretSeoMetrics data)) \<and>
    priority (authority (seoBreakdown (interpretSeoMetrics data)))
      = specPriority (SeoBreakdownCategory.score (authority (seoBreakdown (interpretSeoMetrics data)))) \<and>
    passed (authority (seoBreakdown (interpretSeoMetrics data)))
      = specPassed (specAuthorityMetrics (interpretSeoMetrics data)) \<and>
    total (authority (seoBreakdown (interpretSeoMetrics data)))
      = length (specAuthorityMetrics (interpretSeoMetrics data))) \<and>
   SeoBreakdownCategory.score (calculateCat [] l d) = 15 \<and>
   (length ms = 9 \<and> specPassed ms = 3 \<longrightarrow>
      SeoBreakdownCategory.score (calculateCat ms l d) = 33 \<and>
      priority (calculateCat ms l d) = PriorityWarning)"
proof -
  have empty: "SeoBreakdownCategory.score (calculateCat [] l d) = 15"
    by (simp add: calculateCat_def)
  show ?thesis
    unfolding onPage_interpret technical_interpret authority_interpret
      specOnPageMetrics_interpret specTechnicalMetrics_interpret specAuthorityMetrics_interpret
    using calculateCat_spec empty calculateCat_nine by blast
qed

theorem C2_category_scores_witness:
  "length nineMetrics = 9 \<and> specPassed nineMetrics = 3 \<and>
   SeoBreakdownCategory.score (calculateCat nineMetrics ''On-page SEO'' '''') = 33 \<and>
   priority (calculateCat nineMetrics ''On-page SEO'' '''') = PriorityWarning"
proof -
  have h: "length nineMetrics = 9 \<and> specPassed nineMetrics = 3"
    by (simp add: nineMetrics_def specPassed_def sampleMetric_def)
  with C2_category_scores [of _ "''On-page SEO''" "''''" nineMetrics] show ?thesis
    by blast
qed

subsection \<open>Authority category\<close>

lemma status_internalLinksMetric:
  "status (internalLinksMetric data) = Good \<or> status (internalLinksMetric data) = Warning"
  by (simp add: internalLinksMetric_def Let_def)

lemma status_schemaMetric:
  "status (schemaMetric data) = Good \<or> status (schemaMetric data) = Warning"
  by (simp add: schemaMetric_def Let_def)

lemma status_growthSignals: "map status growthSignals = [Unknown, Unknown]"
  by (simp add: growthSignals_def)

lemma specCategoryScore_four:
  assumes "length ms = 4"
  shows "(specPassed ms = 0 \<longrightarrow> specCategoryScore ms = 15) \<and>
         (specPassed ms = 1 \<longrightarrow> specCategoryScore ms = 25) \<and>
         (specPassed ms = 2 \<longrightarrow> specCategoryScore ms = 50)"
proof -
  have r0: "round (rat_of_nat 0 / rat_of_nat 4 * 100) = 0"
    unfolding round_def by (rule floor_unique; simp)
  have r1: "round (rat_of_nat 1 / rat_of_nat 4 * 100) = 25"
    unfolding round_def by (rule floor_unique; simp)
  have r2: "round (rat_of_nat 2 / rat_of_nat 4 * 100) = 50"
    unfolding round_def by (rule floor_unique; simp)
  show ?thesis
    unfolding specCategoryScore_def assms
    by (intro conjI impI) (simp_all only: r0 r1 r2, simp_all)
qed

lemma authority_cases:
  "(specPassed (trustCredibility data @ growthSignals) = 0 \<and>
      specCategoryScore (trustCredibility data @ growthSignals) = 15) \<or>
   (specPassed (trustCredibility data @ growthSignals) = 1 \<and>
      specCategoryScore (trustCredibility data @ growthSignals) = 25) \<or>
   (specPassed (trustCredibility data @ growthSignals) = 2 \<and>
      specCategoryScore (trustCredibility data @ growthSignals) = 50)"
proof -
  have len: "length (trustCredibility data @ growthSignals) = 4"
    by (simp add: trustCredibility_def growthSignals_def)
  have p: "specPassed (trustCredibility data @ growthSignals) =
       (if status (internalLinksMetric data) = Good then 1 else 0) +
       (if status (schemaMetric data) = Good then 1 else 0)"
    by (simp add: specPassed_def trustCredibility_def growthSignals_def)
  have "specPassed (trustCredibility data @ growthSignals) = 0 \<or>
        specPassed (trustCredibility data @ growthSignals) = 1 \<or>
        specPassed (trustCredibility data @ growthSignals) = 2"
    unfolding p by simp
  with specCategoryScore_four [OF len] show ?thesis by auto
qed

text \<open>
  Claim C10. The authority category always has four results, of which the last two (the
  growth signals) are unknown, so at most two are good; its score is 15, 25 or 50, never
  above 50, and its priority is critical or warning, never good.
\<close>

theorem C10_authority_range:
  "total (authority (seoBreakdown (interpretSeoMetrics data))) = 4 \<and>
   map status (drop 2 (specAuthorityMetrics (interpretSeoMetrics data))) = [Unknown, Unknown] \<and>
   passed (authority (seoBreakdown (interpretSeoMetrics data))) \<le> 2 \<and>
   SeoBreakdownCategory.score (authority (seoBreakdown (interpretSeoMetrics data))) \<in> {15, 25, 50} \<and>
   SeoBreakdownCategory.score (authority (seoBreakdown (interpretSeoMetrics data))) \<le> 50 \<and>
   priority (authority (seoBreakdown (interpretSeoMetrics data))) \<noteq> PriorityGood \<and>
   priority (authority (seoBreakdown (interpretSeoMetrics data))) \<in> {PriorityCritical, PriorityWarning}"
proof -
  let ?ms = "trustCredibility data @ growthSignals"
  let ?c = "authority (seoBreakdown (interpretSeoMetrics data))"
  have c: "SeoBreakdownCategory.score ?c = specCategoryScore ?ms"
      "priority ?c = specPriority (SeoBreakdownCategory.score ?c)"
      "passed ?c = specPassed ?ms" "total ?c = length ?ms"
    using calculateCat_spec [of ?ms] by (simp_all add: authority_interpret)
  have len: "length ?ms = 4"
    by (simp add: trustCredibility_def growthSignals_def)
  have tail: "map status (drop 2 (specAuthorityMetrics (interpretSeoMetrics data))) = [Unknown, Unknown]"
    by (simp add: specAuthorityMetrics_interpret trustCredibility_def status_growthSignals)
  from authority_cases [of data] show ?thesis
    unfolding c len tail by (auto simp add: specPriority_def)
qed


subsection \<open>Action summary\<close>

lemma summaryActions_eq:
  "summaryActions secs =
     (if filter (\<lambda>m. status m = Critical) (concat (map metrics secs)) = []
      then [''Focus on getting more high-quality links from other websites.'']
      else map action (take 4 (filter (\<lambda>m. status m = Critical) (concat (map metrics secs)))))"
  by (simp add: summaryActions_def criticalMetris_filter Let_def)

lemma actions_criticalResults:
  "actions (SeoReport.summary (interpretSeoMetrics data)) =
     (if criticalResults (interpretSeoMetrics data) = []
      then [''Focus on getting more high-quality links from other websites.'']
      else map action (take 4 (criticalResults (interpretSeoMetrics data))))"
  by (simp only: actions_interpret summaryActions_eq criticalResults_def allMetrics_def
      sections_interpret)

text \<open>
  Claim C3 as stated names the fallback action "build more external links". On a page with
  no critical result the single action is a different text.
\<close>

theorem C3_no_critical_counterexample:
  "criticalResults (interpretSeoMetrics healthyFacts) = [] \<and>
   actions (SeoReport.summary (interpretSeoMetrics healthyFacts)) \<noteq> [''build more external links'']"
proof -
  have "criticalResults (interpretSeoMetrics healthyFacts) = []"
    by (simp add: criticalResults_def allMetrics_interpret searchVisibility_def contentStrength_def
        technicalHealth_def trustCredibility_def growthSignals_def titleMetric_def metaMetric_def
        ogMetric_def h1Metric_def wcMetric_def imageMetric_def httpsMetric_def mobileMetric_def
        indexMetric_def sitemapMetric_def internalLinksMetric_def schemaMetric_def
        healthyFacts_def get_def gt_num_def Let_def)
  then show ?thesis
    by (simp add: actions_criticalResults)
qed


text \<open>
  Claim C3, amended. The actions are the action texts of the first four critical results in
  section-then-rule order; with no critical result they are the single fixed action
  "Focus on getting more high-quality links from other websites.". There are never more
  than four. With no facts at all six results are critical and the actions are those of
  the first four of them.
\<close>

theorem C3_action_summary:
  "actions (SeoReport.summary (interpretSeoMetrics data)) =
     (if criticalResults (interpretSeoMetrics data) = []
      then [''Focus on getting more high-quality links from other websites.'']
      else map action (take 4 (criticalResults (interpretSeoMetrics data)))) \<and>
   length (actions (SeoReport.summary (interpretSeoMetrics data))) \<le> 4 \<and>
   length (criticalResults (interpretSeoMetrics emptyFacts)) = 6 \<and>
   actions (SeoReport.summary (interpretSeoMetrics emptyFacts)) =
     [''Add a clear, short title between 30 and 60 characters.'',
      ''Add a compelling description of 120-160 characters.'',
      ''Add one clear main headline (H1 tag) to the top of the page.'',
      ''Expand your content with more helpful details, examples, or data.'']"
proof -
  have six: "map action (criticalResults (interpretSeoMetrics emptyFacts)) =
     [''Add a clear, short title between 30 and 60 characters.'',
      ''Add a compelling description of 120-160 characters.'',
      ''Add one clear main headline (H1 tag) to the top of the page.'',
      ''Expand your content with more helpful details, examples, or data.'',
      ''Enable HTTPS (SSL certificate) immediately.'',
      ''Check your 'viewport' settings and ensure text isn't too small.'']"
    by (simp add: criticalResults_def allMetrics_interpret searchVisibility_def contentStrength_def
        technicalHealth_def trustCredibility_def growthSignals_def titleMetric_def metaMetric_def
        ogMetric_def h1Metric_def wcMetric_def imageMetric_def httpsMetric_def mobileMetric_def
        indexMetric_def sitemapMetric_def internalLinksMetric_def schemaMetric_def
        emptyFacts_def get_def gt_num_def Let_def)
  have "length (map action (criticalResults (interpretSeoMetrics emptyFacts))) = 6"
    unfolding six by simp
  then have len: "length (criticalResults (interpretSeoMetrics emptyFacts)) = 6"
    by simp
  then have ne: "criticalResults (interpretSeoMetrics emptyFacts) \<noteq> []"
    by auto
  have four: "actions (SeoReport.summary (interpretSeoMetrics emptyFacts)) =
      take 4 (map action (criticalResults (interpretSeoMetrics emptyFacts)))"
    using ne by (simp add: actions_criticalResults take_map)
  have cap: "length (actions (SeoReport.summary (interpretSeoMetrics data))) \<le> 4"
    by (simp add: actions_criticalResults)
  from actions_criticalResults [of data] cap len four show ?thesis
    unfolding six by simp
qed

subsection \<open>Title rule\<close>

lemma status_titleMetric:
  "status (titleMetric data) = specTitleStatus (factTitleExists data) (factTitleLength data)"
  by (simp add: titleMetric_def Let_def specTitleStatus_def factTitleExists_def factTitleLength_def
      get_def split: option.splits)

lemma title_titleMetric:
  "title (titleMetric data) = ''Page Title'' \<or> title (titleMetric data) = ''Title Length''"
  by (simp add: titleMetric_def Let_def)

lemma first_metric_interpret:
  "name (sections (interpretSeoMetrics data) ! 0) = ''Search visibility'' \<and>
   metrics (sections (interpretSeoMetrics data) ! 0) ! 0 = titleMetric data"
  by (simp add: sections_interpret buildSections_def searchVisibility_def)

lemma titleFacts_fields:
  "factTitleExists (titleFacts n) = True" "factTitleLength (titleFacts n) = n"
  by (simp_all add: factTitleExists_def factTitleLength_def titleFacts_def)

lemma emptyFacts_title: "factTitleExists emptyFacts = False"
  by (simp add: factTitleExists_def emptyFacts_def)

text \<open>
  Claim C4. The first result of the Search visibility section is the title result. Its
  status follows the chain: title missing gives critical, else a length above 60 gives
  critical, else a length below 30 gives warning, else good. With no facts at all it is
  critical; with an existing title of length 59 it is good, of length 61 critical, of
  length 29 warning, of length 30 good.
\<close>

theorem C4_title_chain:
  "name (sections (interpretSeoMetrics data) ! 0) = ''Search visibility'' \<and>
   status (metrics (sections (interpretSeoMetrics data) ! 0) ! 0)
     = specTitleStatus (factTitleExists data) (factTitleLength data) \<and>
   title (metrics (sections (interpretSeoMetrics data) ! 0) ! 0) \<in> {''Page Title'', ''Title Length''} \<and>
   status (metrics (sections (interpretSeoMetrics emptyFacts) ! 0) ! 0) = Critical \<and>
   status (metrics (sections (interpretSeoMetrics (titleFacts 59)) ! 0) ! 0) = Good \<and>
   status (metrics (sections (interpretSeoMetrics (titleFacts 61)) ! 0) ! 0) = Critical \<and>
   status (metrics (sections (interpretSeoMetrics (titleFacts 29)) ! 0) ! 0) = Warning \<and>
   status (metrics (sections (interpretSeoMetrics (titleFacts 30)) ! 0) ! 0) = Good"
  using title_titleMetric [of data]
  by (simp add: first_metric_interpret status_titleMetric titleFacts_fields emptyFacts_title
      specTitleStatus_def)

subsection \<open>Image accessibility\<close>

lemma imageMetric_status:
  "map status (filter (\<lambda>m. title m = ''Image accessibility'') (imageMetric data)) =
     (if factImageTotal data > 0
      then [if factImageMissing data > 0 then Warning else Good]
      else [])"
  by (simp add: imageMetric_def Let_def factImageTotal_def factImageMissing_def get_def gt_num_def
      split: option.splits)

lemma h1Metric_title: "title (h1Metric data) \<noteq> ''Image accessibility''"
  by (simp add: h1Metric_def Let_def)

lemma wcMetric_title: "title (wcMetric data) \<noteq> ''Image accessibility''"
  by (simp add: wcMetric_def Let_def)

lemma imageResults_interpret:
  "imageResults (interpretSeoMetrics data) =
     filter (\<lambda>m. title m = ''Image accessibility'') (imageMetric data)"
  by (simp add: imageResults_def sections_interpret buildSections_def contentStrength_def
      h1Metric_title wcMetric_title)

lemma imageFacts_fields:
  "factImageTotal (imageFacts t m) = t" "factImageMissing (imageFacts t m) = m"
  by (simp_all add: factImageTotal_def factImageMissing_def imageFacts_def)

text \<open>
  Claim C5. The Content strength section holds a result titled Image accessibility exactly
  when the total image count is above 0, and then exactly one, whose status is warning
  when the missing-alt count is above 0 and good otherwise. Total 0 gives no entry, total
  10 with 0 missing gives good, total 10 with 3 missing gives warning.
\<close>

theorem C5_image_accessibility:
  "name (sections (interpretSeoMetrics data) ! 1) = ''Content strength'' \<and>
   map status (imageResults (interpretSeoMetrics data)) =
     (if factImageTotal data > 0
      then [if factImageMissing data > 0 then Warning else Good]
      else []) \<and>
   imageResults (interpretSeoMetrics (imageFacts 0 0)) = [] \<and>
   map status (imageResults (interpretSeoMetrics (imageFacts 10 0))) = [Good] \<and>
   map status (imageResults (interpretSeoMetrics (imageFacts 10 3))) = [Warning]"
proof -
  have n: "name (sections (interpretSeoMetrics data) ! 1) = ''Content strength''"
    by (simp add: sections_interpret buildSections_def)
  have g: "map status (imageResults (interpretSeoMetrics d)) =
     (if factImageTotal d > 0 then [if factImageMissing d > 0 then Warning else Good] else [])" for d
    by (simp only: imageResults_interpret imageMetric_status)
  from g [of "imageFacts 0 0"] have e0: "imageResults (interpretSeoMetrics (imageFacts 0 0)) = []"
    by (simp add: imageFacts_fields)
  from g [of "imageFacts 10 0"] have e1: "map status (imageResults (interpretSeoMetrics (imageFacts 10 0))) = [Good]"
    by (simp add: imageFacts_fields)
  from g [of "imageFacts 10 3"] have e2: "map status (imageResults (interpretSeoMetrics (imageFacts 10 3))) = [Warning]"
    by (simp add: imageFacts_fields)
  from n g [of data] e0 e1 e2 show ?thesis by simp
qed

subsection \<open>Weakest and strongest area\<close>

lemma areaSummary_explicit:
  "weakestArea (areaSummary a b c) =
     (if a \<le> b \<and> a \<le> c then ''onPage'' else if b \<le> c then ''technical'' else ''authority'') \<and>
   strongestArea (areaSummary a b c) =
     (if a \<le> c \<and> b \<le> c then ''authority'' else if a \<le> b then ''technical'' else ''onPage'') \<and>
   recommendedFocus (areaSummary a b c) = weakestArea (areaSummary a b c)"
  by (simp add: areaSummary_def Let_def)

lemma specWeakest_three:
  "specWeakest [(k1, a), (k2, b), (k3, c)] =
     (if a \<le> b \<and> a \<le> c then k1 else if b \<le> c then k2 else k3)"
  by (auto simp add: specWeakest_def min_def)

lemma specStrongest_three:
  "specStrongest [(k1, a), (k2, b), (k3, c)] =
     (if a \<le> c \<and> b \<le> c then k3 else if a \<le> b then k2 else k1)"
  by (auto simp add: specStrongest_def max_def)

lemma summary_interpret:
  "SeoBreakdown.summary (seoBreakdown (interpretSeoMetrics data)) =
     areaSummary (SeoBreakdownCategory.score (onPage (seoBreakdown (interpretSeoMetrics data))))
       (SeoBreakdownCategory.score (technical (seoBreakdown (interpretSeoMetrics data))))
       (SeoBreakdownCategory.score (authority (seoBreakdown (interpretSeoMetrics data))))"
  by (simp add: interpretSeoMetrics_def Let_def)

text \<open>
  Claim C6. The weakest area is the category with the lowest score and the strongest area
  the one with the highest; the recommended focus is the weakest area. Ties follow the
  order of the comparison array (onPage, technical, authority) as a stable ascending sort
  leaves it: among equal lowest scores the earliest entry is the weakest, among equal
  highest scores the latest entry is the strongest. Scores 20, 80, 50 give onPage,
  technical, onPage; three equal scores give onPage as weakest and authority as strongest.
\<close>

theorem C6_weakest_strongest:
  "weakestArea (SeoBreakdown.summary (seoBreakdown (interpretSeoMetrics data)))
     = specWeakest (categoryScores (interpretSeoMetrics data)) \<and>
   strongestArea (SeoBreakdown.summary (seoBreakdown (interpretSeoMetrics data)))
     = specStrongest (categoryScores (interpretSeoMetrics data)) \<and>
   recommendedFocus (SeoBreakdown.summary (seoBreakdown (interpretSeoMetrics data)))
     = weakestArea (SeoBreakdown.summary (seoBreakdown (interpretSeoMetrics data))) \<and>
   areaSummary 20 80 50
     = \<lparr>weakestArea = ''onPage'', strongestArea = ''technical'', recommendedFocus = ''onPage''\<rparr> \<and>
   areaSummary 50 50 50
     = \<lparr>weakestArea = ''onPage'', strongestArea = ''authority'', recommendedFocus = ''onPage''\<rparr>"
proof -
  have ex: "areaSummary 20 80 50
     = \<lparr>weakestArea = ''onPage'', strongestArea = ''technical'', recommendedFocus = ''onPage''\<rparr>"
    "areaSummary 50 50 50
     = \<lparr>weakestArea = ''onPage'', strongestArea = ''authority'', recommendedFocus = ''onPage''\<rparr>"
    by (simp_all add: areaSummary_def Let_def)
  show ?thesis
    unfolding summary_interpret categoryScores_def specWeakest_three specStrongest_three
    using areaSummary_explicit ex by simp
qed


subsection \<open>Totality and defaults\<close>

text \<open>The division of \<^verbatim>\<open>calculateAggregatedScore\<close> has no guard of its own: without
  any result it yields \<^verbatim>\<open>NaN\<close>. The interpreter always passes at least 13 results.\<close>

lemma calculateAggregatedScore_no_metrics: "calculateAggregatedScore [] = None"
  by (simp add: calculateAggregatedScore_def)

lemma get_Some: "get (Some x) d = x"
  by (simp add: get_def)

lemma titleMetric_defaults: "titleMetric (specDefaults data) = titleMetric data"
  by (simp add: titleMetric_def get_Some specDefaults_def defaultOnPage_def defaultText_def)

lemma metaMetric_defaults: "metaMetric (specDefaults data) = metaMetric data"
  by (simp add: metaMetric_def get_Some specDefaults_def defaultOnPage_def defaultText_def)

lemma ogMetric_defaults: "ogMetric (specDefaults data) = ogMetric data"
  by (simp add: ogMetric_def get_Some specDefaults_def defaultOnPage_def)

lemma h1Metric_defaults: "h1Metric (specDefaults data) = h1Metric data"
  by (simp add: h1Metric_def get_Some specDefaults_def defaultOnPage_def)

lemma wcMetric_defaults: "wcMetric (specDefaults data) = wcMetric data"
  by (simp add: wcMetric_def get_Some specDefaults_def defaultOnPage_def)

lemma imageMetric_defaults: "imageMetric (specDefaults data) = imageMetric data"
proof -
  let ?a = "onpage data \<bind> images \<bind> altStats"
  have path: "onpage (specDefaults data) \<bind> images \<bind> altStats =
      Some \<lparr>total_f = Some (get (?a \<bind> total_f) 0), missing = Some (get (?a \<bind> missing) 0)\<rparr>"
    by (simp add: specDefaults_def defaultOnPage_def)
  show ?thesis
  proof (cases ?a)
    case None
    then show ?thesis
      unfolding imageMetric_def path by (simp add: get_def gt_num_def)
  next
    case (Some a)
    then show ?thesis
      unfolding imageMetric_def path
      by (cases "total_f a"; cases "missing a") (simp_all add: get_def gt_num_def show_num_def)
  qed
qed

lemma httpsMetric_defaults: "httpsMetric (specDefaults data) = httpsMetric data"
  by (simp add: httpsMetric_def get_Some specDefaults_def)

lemma mobileMetric_defaults: "mobileMetric (specDefaults data) = mobileMetric data"
  by (simp add: mobileMetric_def get_Some specDefaults_def)

lemma indexMetric_defaults: "indexMetric (specDefaults data) = indexMetric data"
  by (simp add: indexMetric_def get_Some specDefaults_def)

lemma sitemapMetric_defaults: "sitemapMetric (specDefaults data) = sitemapMetric data"
  by (simp add: sitemapMetric_def get_Some specDefaults_def)

lemma internalLinksMetric_defaults: "internalLinksMetric (specDefaults data) = internalLinksMetric data"
  by (simp add: internalLinksMetric_def get_Some specDefaults_def)

lemma schemaMetric_defaults: "schemaMetric (specDefaults data) = schemaMetric data"
  by (simp add: schemaMetric_def get_Some specDefaults_def)

lemma interpret_defaults: "interpretSeoMetrics (specDefaults data) = interpretSeoMetrics data"
  by (simp add: interpretSeoMetrics_def buildSections_def searchVisibility_def contentStrength_def
      technicalHealth_def trustCredibility_def titleMetric_defaults metaMetric_defaults
      ogMetric_defaults h1Metric_defaults wcMetric_defaults imageMetric_defaults
      httpsMetric_defaults mobileMetric_defaults indexMetric_defaults sitemapMetric_defaults
      internalLinksMetric_defaults schemaMetric_defaults)

lemma areas_known:
  "weakestArea (areaSummary a b c) \<in> {''onPage'', ''technical'', ''authority''} \<and>
   strongestArea (areaSummary a b c) \<in> {''onPage'', ''technical'', ''authority''}"
  using areaSummary_explicit [of a b c] by simp

lemma emptyFacts_score: "SeoReport.score (interpretSeoMetrics emptyFacts) = Some 34"
proof -
  have st: "map status (allMetrics (interpretSeoMetrics emptyFacts)) =
     [Critical, Critical, Warning, Critical, Critical, Critical, Critical, Good, Warning,
      Warning, Warning, Unknown, Unknown]"
    by (simp add: allMetrics_interpret searchVisibility_def contentStrength_def
        technicalHealth_def trustCredibility_def growthSignals_def titleMetric_def metaMetric_def
        ogMetric_def h1Metric_def wcMetric_def imageMetric_def httpsMetric_def mobileMetric_def
        indexMetric_def sitemapMetric_def internalLinksMetric_def schemaMetric_def
        emptyFacts_def get_def gt_num_def Let_def)
  have "map (statusPoints \<circ> status) (allMetrics (interpretSeoMetrics emptyFacts)) =
      map statusPoints (map status (allMetrics (interpretSeoMetrics emptyFacts)))"
    by simp
  then have pts: "sum_list (map (statusPoints \<circ> status) (allMetrics (interpretSeoMetrics emptyFacts))) = 440"
    unfolding st by (simp add: statusPoints_def)
  have "length (map status (allMetrics (interpretSeoMetrics emptyFacts))) = 13"
    unfolding st by simp
  then have len: "length (allMetrics (interpretSeoMetrics emptyFacts)) = 13"
    by simp
  have "round (rat_of_int 440 / rat_of_nat 13) = 34"
    unfolding round_def by (rule floor_unique; simp)
  then show ?thesis
    by (simp only: score_interpret_round pts len)
qed

text \<open>
  On facts without \<^verbatim>\<open>null\<close>, with any or all fields absent, the report is well
  formed: the score is a number (not \<open>NaN\<close>), the five sections are there, at least 13
  results are averaged and every category has a positive total, so no division is by zero;
  there are between one and four actions, and the weakest and strongest area are category
  keys. Absent fields behave as their defaults: the report of the facts equals the report
  of the facts with every default filled in. With no facts at all the score is 34.
\<close>

lemma total_on_defined_facts:
  "(\<exists>s. SeoReport.score (interpretSeoMetrics data) = Some s) \<and>
   map name (sections (interpretSeoMetrics data)) = sectionNames \<and>
   13 \<le> length (allMetrics (interpretSeoMetrics data)) \<and>
   0 < total (onPage (seoBreakdown (interpretSeoMetrics data))) \<and>
   0 < total (technical (seoBreakdown (interpretSeoMetrics data))) \<and>
   0 < total (authority (seoBreakdown (interpretSeoMetrics data))) \<and>
   1 \<le> length (actions (SeoReport.summary (interpretSeoMetrics data))) \<and>
   length (actions (SeoReport.summary (interpretSeoMetrics data))) \<le> 4 \<and>
   weakestArea (SeoBreakdown.summary (seoBreakdown (interpretSeoMetrics data)))
     \<in> {''onPage'', ''technical'', ''authority''} \<and>
   strongestArea (SeoBreakdown.summary (seoBreakdown (interpretSeoMetrics data)))
     \<in> {''onPage'', ''technical'', ''authority''} \<and>
   interpretSeoMetrics data = interpretSeoMetrics (specDefaults data) \<and>
   SeoReport.score (interpretSeoMetrics emptyFacts) = Some 34"
proof -
  have sc: "\<exists>s. SeoReport.score (interpretSeoMetrics data) = Some s"
    by (simp add: score_interpret_round)
  have len: "13 \<le> length (allMetrics (interpretSeoMetrics data))"
    by (simp add: length_allMetrics)
  have tot: "0 < total (onPage (seoBreakdown (interpretSeoMetrics data)))"
    "0 < total (technical (seoBreakdown (interpretSeoMetrics data)))"
    "0 < total (authority (seoBreakdown (interpretSeoMetrics data)))"
    using calculateCat_spec
    by (simp_all add: onPage_interpret technical_interpret authority_interpret
        searchVisibility_def technicalHealth_def trustCredibility_def)
  have act: "1 \<le> length (actions (SeoReport.summary (interpretSeoMetrics data)))"
    "length (actions (SeoReport.summary (interpretSeoMetrics data))) \<le> 4"
    by (simp_all add: actions_criticalResults Suc_le_eq)
  have ar: "weakestArea (SeoBreakdown.summary (seoBreakdown (interpretSeoMetrics data)))
       \<in> {''onPage'', ''technical'', ''authority''}"
     "strongestArea (SeoBreakdown.summary (seoBreakdown (interpretSeoMetrics data)))
       \<in> {''onPage'', ''technical'', ''authority''}"
    unfolding summary_interpret using areas_known by blast+
  from sc names_interpret [of data] len tot act ar interpret_defaults [of data] emptyFacts_score
  show ?thesis by simp
qed

subsection \<open>Null in place of the image counts\<close>

text \<open>Where the image rule returns, it pushes what it pushes on the facts without
  \<^verbatim>\<open>null\<close>; it throws exactly when the key \<^verbatim>\<open>altStats\<close> is reached and holds
  \<^verbatim>\<open>null\<close>.\<close>

lemma altStats_path_defined:
  "onpage (definedFacts data) \<bind> images \<bind> altStats =
     (truthyObject (onpage_any data) \<bind> (\<lambda>p. truthyObject (images_any p)) \<bind> altStats_any)
       \<bind> (\<lambda>v. truthyObject (Some v))"
  by (simp add: definedFacts_def definedOnPage_def definedImages_def truthyObject_def
      split: option.splits nullable.splits)

lemma imageMetricAny_returns:
  assumes "imageMetricAny data = Inr pushed"
  shows "pushed = imageMetric (definedFacts data)"
proof -
  let ?v = "truthyObject (onpage_any data) \<bind> (\<lambda>p. truthyObject (images_any p)) \<bind> altStats_any"
  show ?thesis
  proof (cases ?v)
    case None
    with assms show ?thesis
      unfolding imageMetricAny_def imageMetric_def altStats_path_defined
      by (simp add: get_def)
  next
    case (Some v)
    with assms show ?thesis
      unfolding imageMetricAny_def imageMetric_def altStats_path_defined
      by (cases v) (simp_all add: get_def truthyObject_def Let_def)
  qed
qed

lemma imageMetricAny_throws_iff:
  "imageMetricAny data = Inl TypeError \<longleftrightarrow>
     truthyObject (onpage_any data) \<bind> (\<lambda>p. truthyObject (images_any p)) \<bind> altStats_any = Some Null"
  by (simp add: imageMetricAny_def get_def Let_def split: option.splits nullable.splits)

lemma interpretSeoMetricsAny_cases:
  "interpretSeoMetricsAny data =
     (if truthyObject (onpage_any data) \<bind> (\<lambda>p. truthyObject (images_any p)) \<bind> altStats_any = Some Null
      then Inl TypeError
      else Inr (interpretSeoMetrics (definedFacts data)))"
proof (cases "imageMetricAny data")
  case (Inl e)
  then have "imageMetricAny data = Inl TypeError"
    by (cases e) simp
  then show ?thesis
    using imageMetricAny_throws_iff [of data] by (simp add: interpretSeoMetricsAny_def)
next
  case (Inr pushed)
  then have "imageMetricAny data \<noteq> Inl TypeError"
    by simp
  with Inr show ?thesis
    using imageMetricAny_throws_iff [of data] by (simp add: interpretSeoMetricsAny_def)
qed

lemma null_object_as_absent:
  "specDefaults (definedFacts nullImagesFacts) = specDefaults emptyFacts"
  "specDefaults (definedFacts nullOnpageFacts) = specDefaults emptyFacts"
  by (simp_all add: specDefaults_def defaultOnPage_def defaultText_def definedFacts_def
      definedOnPage_def definedImages_def truthyObject_def nullImagesFacts_def nullOnpageFacts_def
      emptyFacts_def get_def)

text \<open>
  Claim C9. The claim says that the interpreter returns a report for every input, without
  throwing. On \<^verbatim>\<open>{onpage: {images: {altStats: null}}}\<close> it throws a \<^verbatim>\<open>TypeError\<close>,
  whereas with \<^verbatim>\<open>null\<close> one or two keys higher (\<^verbatim>\<open>images\<close>, \<^verbatim>\<open>onpage\<close>) it returns
  the report of the facts with nothing present, whose score is 34.
\<close>

theorem C9_null_altStats_throws:
  "interpretSeoMetricsAny nullAltStatsFacts = Inl TypeError \<and>
   interpretSeoMetricsAny nullImagesFacts = Inr (interpretSeoMetrics emptyFacts) \<and>
   interpretSeoMetricsAny nullOnpageFacts = Inr (interpretSeoMetrics emptyFacts) \<and>
   SeoReport.score (interpretSeoMetrics emptyFacts) = Some 34"
proof -
  have a: "interpretSeoMetricsAny nullAltStatsFacts = Inl TypeError"
    by (simp add: interpretSeoMetricsAny_cases nullAltStatsFacts_def truthyObject_def)
  have "interpretSeoMetricsAny nullImagesFacts = Inr (interpretSeoMetrics (definedFacts nullImagesFacts))"
    by (simp add: interpretSeoMetricsAny_cases nullImagesFacts_def truthyObject_def)
  also have "interpretSeoMetrics (definedFacts nullImagesFacts) = interpretSeoMetrics emptyFacts"
    using interpret_defaults [of "definedFacts nullImagesFacts"] interpret_defaults [of emptyFacts]
    by (simp only: null_object_as_absent)
  finally have b: "interpretSeoMetricsAny nullImagesFacts = Inr (interpretSeoMetrics emptyFacts)" .
  have "interpretSeoMetricsAny nullOnpageFacts = Inr (interpretSeoMetrics (definedFacts nullOnpageFacts))"
    by (simp add: interpretSeoMetricsAny_cases nullOnpageFacts_def truthyObject_def)
  also have "interpretSeoMetrics (definedFacts nullOnpageFacts) = interpretSeoMetrics emptyFacts"
    using interpret_defaults [of "definedFacts nullOnpageFacts"] interpret_defaults [of emptyFacts]
    by (simp only: null_object_as_absent)
  finally have c: "interpretSeoMetricsAny nullOnpageFacts = Inr (interpretSeoMetrics emptyFacts)" .
  from a b c emptyFacts_score show ?thesis by simp
qed

end
